theory Spec2Isabelle
  imports Main "HOL-Library.Sublist"
begin

section \<open>The Gemini image generator component\<close>

text \<open>
  A shallow embedding of \<^verbatim>\<open>src/components/GeminiImageGenerator.tsx\<close>: the React
  component's state, its two event handlers \<^verbatim>\<open>generateImage\<close> and \<^verbatim>\<open>saveImage\<close>, and
  the platform primitives they call.

  Conventions of the embedding:
  \<^item> JavaScript strings are \<^typ>\<open>string\<close>; a string is falsy exactly when it is empty.
  \<^item> A value that may be \<^verbatim>\<open>null\<close> or \<^verbatim>\<open>undefined\<close> is an \<^typ>\<open>'a option\<close>; optional
    chaining \<^verbatim>\<open>a?.b\<close> is a case distinction on \<open>None\<close>.
  \<^item> A handler reads the state variables of the render that created it (its closure)
    and writes through the setters. The handlers therefore take the closure's state
    \<open>s\<close> for every read, and thread the state being written separately.
  \<^item> A thrown exception is the \<open>Inl\<close> branch of a sum.
  \<^item> The asynchronous handler is cut at its \<^verbatim>\<open>await\<close> of the external call: the part
    before it yields a suspension carrying the request, the part after it resumes with
    the call's result.
  \<^item> The external service, \<^verbatim>\<open>JSON.stringify\<close> and the exception object of \<^verbatim>\<open>atob\<close> are
    parameters. The call to the service and \<^verbatim>\<open>atob\<close> are the two places that throw;
    the constructors of the client, of \<^verbatim>\<open>Blob\<close> and of \<^verbatim>\<open>Uint8Array\<close>, and
    \<^verbatim>\<open>FileSaver.saveAs\<close>, return normally.
\<close>

subsection \<open>Data of the API response\<close>

text \<open>
  The response of the external service, with the fields the component reads:
  \<^verbatim>\<open>candidates[0].safetyAttributes.blockedCategories\<close> and
  \<^verbatim>\<open>candidates[0].content.parts[].inlineData = {mimeType, data}\<close>. Every field reached
  through \<^verbatim>\<open>?.\<close> in the source is optional here.
\<close>

record inlineData =
  mimeType :: string
  data :: string

record part =
  part_text :: "string option"
  inlineData :: "inlineData option"

record content =
  role :: "string option"
  parts :: "part list option"

record safetyAttributes =
  blockedCategories :: "string list option"

record candidate =
  content :: "content option"
  safetyAttributes :: "safetyAttributes option"

record response =
  candidates :: "candidate list option"

text \<open>An exception object: the handlers read only its \<^verbatim>\<open>message\<close>.\<close>

datatype js_error = Error (message: "string option")

datatype api_result = Throws js_error | Returns response

text \<open>The request handed to \<^verbatim>\<open>model.generateContent\<close>, with the key and model name
  the client was built from (lines 32 to 54).\<close>

record request =
  req_api_key :: string
  req_model :: string
  req_role :: string
  req_parts :: "string list"
  req_responseModalities :: "string list"

subsection \<open>Component state\<close>

text \<open>The six \<^verbatim>\<open>useState\<close> variables of lines 9 to 14. The field \<^verbatim>\<open>image\<close> is named
  \<open>image_st\<close> here, \<open>image\<close> being the image of a set in HOL.\<close>

record state =
  style :: string
  word :: string
  image_st :: "part option"
  loading :: bool
  error :: "string option"
  debugInfo :: "string list"

definition setImage :: "part option \<Rightarrow> state \<Rightarrow> state" where
  "setImage v st = st\<lparr>image_st := v\<rparr>"

definition setLoading :: "bool \<Rightarrow> state \<Rightarrow> state" where
  "setLoading v st = st\<lparr>loading := v\<rparr>"

definition setError :: "string option \<Rightarrow> state \<Rightarrow> state" where
  "setError v st = st\<lparr>error := v\<rparr>"

definition setDebugInfo :: "string list \<Rightarrow> state \<Rightarrow> state" where
  "setDebugInfo v st = st\<lparr>debugInfo := v\<rparr>"

text \<open>Line 6: \<^verbatim>\<open>const API_KEY = import.meta.env.VITE_GEMINI_API_KEY || ""\<close>.\<close>

definition API_KEY :: "string option \<Rightarrow> string" where
  "API_KEY env = (case env of None \<Rightarrow> [] | Some k \<Rightarrow> k)"

text \<open>\<^verbatim>\<open>x || d\<close> on a string that may be undefined: the default \<open>d\<close> replaces an
  undefined and an empty string, both being falsy.\<close>

definition str_or :: "string option \<Rightarrow> string \<Rightarrow> string" where
  "str_or x d = (case x of None \<Rightarrow> d | Some m \<Rightarrow> if m = [] then d else m)"

text \<open>\<^verbatim>\<open>err.message || d\<close>.\<close>

definition message_or :: "js_error \<Rightarrow> string \<Rightarrow> string" where
  "message_or err d = str_or (message err) d"

subsection \<open>generateImage\<close>

text \<open>Line 40, the template literal of the prompt.\<close>

definition imagePrompt :: "string \<Rightarrow> string \<Rightarrow> string" where
  \<open>imagePrompt w sty =
     ''Create a high-quality, clear image of a "'' @ w @ ''" in the style of '' @ sty @
     ''. The object should be the central focus of the image, and visually styled according to the description: ''
     @ sty @ ''. Make it visually appealing and artistic.''\<close>

text \<open>Lines 32 to 54: the client, the model and the argument of \<^verbatim>\<open>generateContent\<close>.\<close>

definition mk_request :: "string \<Rightarrow> string \<Rightarrow> request" where
  "mk_request key prompt =
     \<lparr>req_api_key = key, req_model = ''gemini-2.0-flash-exp'', req_role = ''user'',
      req_parts = [prompt], req_responseModalities = [''Text'', ''Image'']\<rparr>"

text \<open>
  What the handler is doing when it stops: either it has returned (\<open>Finished\<close>, no call
  was made), or it waits for the external call (\<open>Awaiting\<close>), with the state written so
  far, the request issued and the local variable \<^verbatim>\<open>logs\<close>.
\<close>

datatype suspension =
    Finished (susp_state: state)
  | Awaiting (susp_state: state) (susp_request: request) (susp_logs: "string list")

text \<open>Lines 17 to 54, up to the \<^verbatim>\<open>await\<close>. The closure's state is \<open>s\<close>; \<open>env\<close> is
  the environment variable \<^verbatim>\<open>VITE_GEMINI_API_KEY\<close>, undefined when it is not configured.\<close>

definition generateImage_begin :: "string option \<Rightarrow> state \<Rightarrow> suspension" where
  "generateImage_begin env s =
     (if word s = [] \<or> style s = [] then
        Finished (setError (Some ''Please enter both a word and style'') s)
      else if API_KEY env = [] then
        Finished (setError
          (Some ''API key is missing. Please add your Gemini API key to the .env file.'') s)
      else
        let st1 = setDebugInfo [] (setError None (setLoading True s));
            prompt = imagePrompt (word s) (style s);
            logs = [''Sending prompt: '' @ prompt];
            st2 = setDebugInfo logs st1
        in Awaiting st2 (mk_request (API_KEY env) prompt) logs)"

text \<open>Line 63: the safety check, through four optional links.\<close>

definition safety_blocked :: "response \<Rightarrow> bool" where
  "safety_blocked r =
     (case candidates r of None \<Rightarrow> False
      | Some cs \<Rightarrow> (case cs of [] \<Rightarrow> False
        | c # _ \<Rightarrow> (case safetyAttributes c of None \<Rightarrow> False
          | Some sa \<Rightarrow> (case blockedCategories sa of None \<Rightarrow> False
            | Some bc \<Rightarrow> ''IMAGE_SAFETY'' \<in> set bc))))"

text \<open>Line 71: the first part of the first candidate whose \<^verbatim>\<open>inlineData\<close> is truthy.\<close>

definition find_imagePart :: "response \<Rightarrow> part option" where
  "find_imagePart r =
     (case candidates r of None \<Rightarrow> None
      | Some cs \<Rightarrow> (case cs of [] \<Rightarrow> None
        | c # _ \<Rightarrow> (case content c of None \<Rightarrow> None
          | Some ct \<Rightarrow> (case parts ct of None \<Rightarrow> None
            | Some ps \<Rightarrow> List.find (\<lambda>p. inlineData p \<noteq> None) ps))))"

text \<open>
  Lines 56 to 85, the body of the \<^verbatim>\<open>try\<close> after the call. The serializer
  \<^verbatim>\<open>JSON.stringify(_, null, 2)\<close> is the parameter \<open>stringify\<close>. A rejected call throws at
  the \<^verbatim>\<open>await\<close>, with the state as written so far.
\<close>

definition generateImage_try ::
  "(response \<Rightarrow> string) \<Rightarrow> state \<Rightarrow> string list \<Rightarrow> api_result \<Rightarrow> js_error \<times> state + state" where
  "generateImage_try stringify st logs res =
     (case res of
        Throws err \<Rightarrow> Inl (err, st)
      | Returns r \<Rightarrow>
          let logs1 = logs @ [''Received response from Gemini API''];
              st1 = setDebugInfo logs1 st;
              logs2 = logs1 @ [''Processing response'']
          in if safety_blocked r then
               let logs3 = logs2 @ [''Image was blocked due to safety concerns''];
                   st2 = setError (Some
                     ''The image generation was blocked due to safety concerns. Please try a different prompt.'') st1
               in Inr (setDebugInfo logs3 st2)
             else
               (case find_imagePart r of
                  Some imagePart \<Rightarrow>
                    (case inlineData imagePart of
                       Some d \<Rightarrow>
                         let logs3 = logs2 @ [''Successfully extracted image data''];
                             st2 = setImage (Some imagePart) st1;
                             logs4 = logs3 @ [''Image MIME type: '' @ mimeType d]
                         in Inr (setDebugInfo logs4 st2)
                     | None \<Rightarrow>
                         let logs3 = logs2 @ [''No image data found in the response''];
                             st2 = setError (Some
                               ''Failed to generate an image. The API did not return image data.'') st1;
                             logs4 = logs3 @ [''API Response: '' @ stringify r]
                         in Inr (setDebugInfo logs4 st2))
                | None \<Rightarrow>
                    let logs3 = logs2 @ [''No image data found in the response''];
                        st2 = setError (Some
                          ''Failed to generate an image. The API did not return image data.'') st1;
                        logs4 = logs3 @ [''API Response: '' @ stringify r]
                    in Inr (setDebugInfo logs4 st2)))"

text \<open>
  Lines 86 to 89, the \<^verbatim>\<open>catch\<close> block. It reads \<^verbatim>\<open>debugInfo\<close>, a state variable, so
  it reads the closure's state \<open>s\<close>, and writes to the current state \<open>st\<close>.
\<close>

definition generateImage_catch :: "state \<Rightarrow> js_error \<Rightarrow> state \<Rightarrow> state" where
  "generateImage_catch s err st =
     setDebugInfo (debugInfo s @ [''Error: '' @ message_or err ''Unknown error''])
       (setError (Some (''Failed to generate image: '' @ message_or err ''Unknown error'')) st)"

text \<open>Lines 56 to 92: the rest of the handler once the call has settled, with the
  \<^verbatim>\<open>finally\<close> block of line 91 on every path.\<close>

definition generateImage_resume ::
  "(response \<Rightarrow> string) \<Rightarrow> state \<Rightarrow> state \<Rightarrow> string list \<Rightarrow> api_result \<Rightarrow> state" where
  "generateImage_resume stringify s st logs res =
     setLoading False
       (case generateImage_try stringify st logs res of
          Inl (err, st') \<Rightarrow> generateImage_catch s err st'
        | Inr st' \<Rightarrow> st')"

text \<open>
  The whole handler, run against an external service \<open>generateContent\<close>: the final
  state and the list of requests issued to the service.
\<close>

definition generateImage ::
  "string option \<Rightarrow> (response \<Rightarrow> string) \<Rightarrow> (request \<Rightarrow> api_result) \<Rightarrow> state \<Rightarrow> state \<times> request list" where
  "generateImage env stringify generateContent s =
     (case generateImage_begin env s of
        Finished st \<Rightarrow> (st, [])
      | Awaiting st req logs \<Rightarrow>
          (generateImage_resume stringify s st logs (generateContent req), [req]))"

subsection \<open>Platform primitives used by saveImage\<close>

text \<open>
  \<^verbatim>\<open>atob\<close> is the browser's decoder, the forgiving-base64 decode of the WHATWG Infra
  standard: ASCII whitespace is removed; if the length is then a multiple of 4, one or
  two trailing \<^verbatim>\<open>=\<close> are removed; a length of 1 modulo 4 or a character outside the
  alphabet fails; every character contributes 6 bits, and the 4 or 2 bits left over at
  the end are dropped. The result is a string of characters with codes 0 to 255.
\<close>

definition ascii_whitespace :: "char \<Rightarrow> bool" where
  "ascii_whitespace c \<longleftrightarrow> (of_char c :: nat) \<in> {9, 10, 12, 13, 32}"

definition base64_value :: "char \<Rightarrow> nat option" where
  "base64_value c =
     (let n = (of_char c :: nat) in
      if 65 \<le> n \<and> n \<le> 90 then Some (n - 65)
      else if 97 \<le> n \<and> n \<le> 122 then Some (n - 71)
      else if 48 \<le> n \<and> n \<le> 57 then Some (n + 4)
      else if n = 43 then Some 62
      else if n = 47 then Some 63
      else None)"

definition strip_padding :: "string \<Rightarrow> string" where
  "strip_padding d =
     (if length d mod 4 = 0 \<and> d \<noteq> [] \<and> last d = CHR ''='' then
        (let d' = butlast d
         in if d' \<noteq> [] \<and> last d' = CHR ''='' then butlast d' else d')
      else d)"

fun decode_sextets :: "nat list \<Rightarrow> nat list" where
  "decode_sextets [] = []"
| "decode_sextets [a] = []"
| "decode_sextets [a, b] = [(a * 64 + b) div 16]"
| "decode_sextets [a, b, c] =
     (let n = ((a * 64 + b) * 64 + c) div 4 in [n div 256, n mod 256])"
| "decode_sextets (a # b # c # d # rest) =
     (let n = ((a * 64 + b) * 64 + c) * 64 + d
      in (n div 65536) # ((n div 256) mod 256) # (n mod 256) # decode_sextets rest)"

definition forgiving_base64_decode :: "string \<Rightarrow> string option" where
  "forgiving_base64_decode d =
     (let d1 = filter (\<lambda>c. \<not> ascii_whitespace c) d;
          d2 = strip_padding d1
      in if length d2 mod 4 = 1 then None
         else (case those (map base64_value d2) of
                 None \<Rightarrow> None
               | Some vs \<Rightarrow> Some (map char_of (decode_sextets vs))))"

text \<open>\<^verbatim>\<open>atob(data)\<close> throws the platform's exception object \<open>exn\<close> (an
  InvalidCharacterError, whose message text is the browser's) when decoding fails.\<close>

definition atob :: "js_error \<Rightarrow> string \<Rightarrow> js_error + string" where
  "atob exn d = (case forgiving_base64_decode d of None \<Rightarrow> Inl exn | Some b \<Rightarrow> Inr b)"

text \<open>\<^verbatim>\<open>s.split(c)\<close> for a one-character separator: the pieces between the
  separators, of which there is always at least one.\<close>

fun split_str :: "char \<Rightarrow> string \<Rightarrow> string list" where
  "split_str c [] = [[]]"
| "split_str c (x # xs) =
     (if x = c then [] # split_str c xs
      else (case split_str c xs of [] \<Rightarrow> [[x]] | y # ys \<Rightarrow> (x # y) # ys))"

text \<open>\<^verbatim>\<open>xs[i]\<close>, undefined out of range.\<close>

definition js_index :: "'a list \<Rightarrow> nat \<Rightarrow> 'a option" where
  "js_index xs i = (if i < length xs then Some (xs ! i) else None)"

text \<open>\<^verbatim>\<open>new Uint8Array(xs)\<close> on an array of numbers: a hole becomes 0, a number is
  reduced modulo 256.\<close>

definition Uint8Array :: "nat option list \<Rightarrow> nat list" where
  "Uint8Array xs = map (\<lambda>x. case x of None \<Rightarrow> 0 | Some v \<Rightarrow> v mod 256) xs"

text \<open>\<^verbatim>\<open>new Blob([byteArray], {type: mimeType})\<close>, as its two arguments.\<close>

record blob =
  blob_bytes :: "nat list"
  blob_type :: string

text \<open>A call \<^verbatim>\<open>FileSaver.saveAs(blob, name)\<close>.\<close>

record save_request =
  save_blob :: blob
  save_name :: string

subsection \<open>saveImage\<close>

text \<open>Lines 105 to 108: the loop that copies the character codes into
  \<^verbatim>\<open>byteNumbers\<close>, an array created with \<^verbatim>\<open>byteCharacters.length\<close> holes. Every
  index it writes is below that length, so no write extends the array.\<close>

function byteNumbers_loop :: "string \<Rightarrow> nat \<Rightarrow> nat option list \<Rightarrow> nat option list" where
  "byteNumbers_loop byteCharacters i byteNumbers =
     (if i < length byteCharacters then
        byteNumbers_loop byteCharacters (Suc i)
          (byteNumbers[i := Some (of_char (byteCharacters ! i))])
      else byteNumbers)"
  by pat_completeness auto
termination
  by (relation "measure (\<lambda>(bc, i, bn). length bc - i)") auto

text \<open>Line 113: \<^verbatim>\<open>mimeType.split('/')[1] || 'png'\<close>.\<close>

definition extension_of :: "string \<Rightarrow> string" where
  "extension_of m = str_or (js_index (split_str (CHR ''/'') m) 1) ''png''"

text \<open>Lines 100 to 119, the body of the \<^verbatim>\<open>try\<close>, for the stored image \<open>im\<close>: the
  state and the save requests made, or the exception thrown.\<close>

definition saveImage_try ::
  "js_error \<Rightarrow> state \<Rightarrow> part \<Rightarrow> js_error + state \<times> save_request list" where
  "saveImage_try exn s im =
     (case inlineData im of
        Some d \<Rightarrow>
          (case atob exn (data d) of
             Inl err \<Rightarrow> Inl err
           | Inr byteCharacters \<Rightarrow>
               let byteNumbers = byteNumbers_loop byteCharacters 0
                                   (replicate (length byteCharacters) None);
                   byteArray = Uint8Array byteNumbers;
                   blob = \<lparr>blob_bytes = byteArray, blob_type = mimeType d\<rparr>;
                   extension = extension_of (mimeType d)
               in Inr (s, [\<lparr>save_blob = blob, save_name = word s @ ''.'' @ extension\<rparr>]))
      | None \<Rightarrow> Inr (setError (Some ''No valid image data to save'') s, []))"

text \<open>Lines 95 to 124. The result is \<open>Inl\<close> for an exception that leaves the handler,
  \<open>Inr\<close> for a normal return with the new state and the save requests made.\<close>

definition saveImage :: "js_error \<Rightarrow> state \<Rightarrow> js_error + state \<times> save_request list" where
  "saveImage exn s =
     (case image_st s of
        None \<Rightarrow> Inr (s, [])
      | Some im \<Rightarrow>
          if word s = [] then Inr (s, [])
          else
            (case saveImage_try exn s im of
               Inl err \<Rightarrow>
                 Inr (setError (Some (''Failed to save image: '' @ message_or err ''Unknown error'')) s, [])
             | Inr r \<Rightarrow> Inr r))"

subsection \<open>Base64 encoding\<close>

text \<open>
  The standard base64 encoding of a byte string (RFC 4648, with padding; what the
  browser's \<^verbatim>\<open>btoa\<close> computes). The component does not call it: it says here which
  text is the base64 form of which bytes, so that the decoder above can be checked
  against it. Three bytes give four 6-bit values; one or two bytes left over give two
  or three values and two or one \<^verbatim>\<open>=\<close>.
\<close>

definition base64_char :: "nat \<Rightarrow> char" where
  "base64_char v =
     (if v < 26 then char_of (v + 65)
      else if v < 52 then char_of (v + 71)
      else if v < 62 then char_of (v - 4)
      else if v = 62 then CHR ''+''
      else CHR ''/'')"

fun sextets :: "nat list \<Rightarrow> nat list" where
  "sextets [] = []"
| "sextets [a] = [a div 4, (a mod 4) * 16]"
| "sextets [a, b] = [a div 4, (a mod 4) * 16 + b div 16, (b mod 16) * 4]"
| "sextets (a # b # c # rest) =
     [a div 4, (a mod 4) * 16 + b div 16, (b mod 16) * 4 + c div 64, c mod 64] @ sextets rest"

definition base64_encode :: "string \<Rightarrow> string" where
  "base64_encode bs =
     map base64_char (sextets (map of_char bs)) @
     (if length bs mod 3 = 1 then ''=='' else if length bs mod 3 = 2 then ''='' else [])"

subsection \<open>Concrete inputs\<close>

text \<open>States, responses and stand-ins for the platform used to evaluate the handlers on
  concrete inputs. \<open>ex_stringify\<close> stands for \<^verbatim>\<open>JSON.stringify\<close> and \<open>ex_exn\<close> for the
  exception \<^verbatim>\<open>atob\<close> throws.\<close>

definition ex_text_part :: part where
  "ex_text_part = \<lparr>part_text = Some ''Here is your image'', inlineData = None\<rparr>"

definition ex_image_part :: part where
  "ex_image_part =
     \<lparr>part_text = None, inlineData = Some \<lparr>mimeType = ''image/png'', data = ''YWJj''\<rparr>\<rparr>"

definition ex_jpeg_part :: part where
  "ex_jpeg_part =
     \<lparr>part_text = None, inlineData = Some \<lparr>mimeType = ''image/jpeg'', data = ''YWJj''\<rparr>\<rparr>"

definition ex_malformed_part :: part where
  "ex_malformed_part =
     \<lparr>part_text = None, inlineData = Some \<lparr>mimeType = ''image/png'', data = ''YW@j''\<rparr>\<rparr>"

definition ex_image_response :: response where
  "ex_image_response =
     \<lparr>candidates = Some
        [\<lparr>content = Some \<lparr>role = Some ''model'',
                              parts = Some [ex_text_part, ex_image_part, ex_jpeg_part]\<rparr>,
          safetyAttributes = None\<rparr>]\<rparr>"

definition ex_blocked_response :: response where
  "ex_blocked_response =
     \<lparr>candidates = Some
        [\<lparr>content = Some \<lparr>role = Some ''model'', parts = Some [ex_text_part, ex_image_part]\<rparr>,
          safetyAttributes = Some \<lparr>blockedCategories = Some [''IMAGE_SAFETY'']\<rparr>\<rparr>]\<rparr>"

definition ex_text_response :: response where
  "ex_text_response =
     \<lparr>candidates = Some
        [\<lparr>content = Some \<lparr>role = Some ''model'', parts = Some [ex_text_part]\<rparr>,
          safetyAttributes = None\<rparr>]\<rparr>"

definition ex_stringify :: "response \<Rightarrow> string" where
  "ex_stringify r = ''<response>''"

definition ex_exn :: js_error where
  "ex_exn = Error (Some ''The string to be decoded is not correctly encoded.'')"

definition ex_state :: state where
  "ex_state =
     \<lparr>style = ''watercolor'', word = ''fox'', image_st = None, loading = False,
      error = None, debugInfo = []\<rparr>"

text \<open>A state left behind by earlier requests: an image, an error and a trace are stored.\<close>

definition ex_later_state :: state where
  "ex_later_state =
     \<lparr>style = ''watercolor'', word = ''fox'', image_st = Some ex_jpeg_part, loading = False,
      error = Some ''an earlier error'', debugInfo = [''an earlier line'']\<rparr>"

section \<open>The decoder against the encoder\<close>

text \<open>The decoder that models \<^verbatim>\<open>atob\<close> returns, for the base64 encoding of any byte
  string, that byte string. This is what makes a text "valid base64" for the
  properties of the save handler below.\<close>

lemma encode_examples:
  "base64_encode ''abc'' = ''YWJj''" "base64_encode ''ab'' = ''YWI=''"
  "base64_encode ''a'' = ''YQ==''"
  by (simp_all add: base64_encode_def base64_char_def char_of_eq_iff)

lemma base64_value_char: "v < 64 \<Longrightarrow> base64_value (base64_char v) = Some v"
  by (auto simp: base64_value_def base64_char_def Let_def)

lemma base64_char_not_ws: "v < 64 \<Longrightarrow> \<not> ascii_whitespace (base64_char v)"
  by (auto simp: ascii_whitespace_def base64_char_def)

lemma base64_char_not_pad: "v < 64 \<Longrightarrow> base64_char v \<noteq> CHR ''=''"
  using base64_value_char[of v] by (auto simp: base64_value_def)

lemma sextets_bound: "\<forall>x\<in>set xs. x < 256 \<Longrightarrow> \<forall>v\<in>set (sextets xs). v < 64"
proof (induction xs rule: sextets.induct)
  case 1
  show ?case by simp
next
  case (2 a)
  then have "a < 256" by simp
  then have "a div 4 < 64" "a mod 4 * 16 < 64" by simp_all
  then show ?case by simp
next
  case (3 a b)
  then have "a < 256" "b < 256" by simp_all
  then have "a div 4 < 64" "a mod 4 * 16 + b div 16 < 64" "b mod 16 * 4 < 64" by simp_all
  then show ?case by simp
next
  case (4 a b c rest)
  then have "a < 256" "b < 256" "c < 256" by simp_all
  then have "a div 4 < 64" "a mod 4 * 16 + b div 16 < 64" "b mod 16 * 4 + c div 64 < 64" "c mod 64 < 64"
    by simp_all
  with 4 show ?case by simp
qed

text \<open>Arithmetic of the regrouping of three bytes into four 6-bit values.\<close>

lemma quarter_regroup: "(a::nat) div 4 * 64 + a mod 4 * 16 = a * 16"
proof -
  have "a div 4 * 64 + a mod 4 * 16 = (a div 4 * 4 + a mod 4) * 16"
    by (simp only: add_mult_distrib mult.assoc)
  also have "\<dots> = a * 16" by (simp only: div_mult_mod_eq)
  finally show ?thesis .
qed

lemma sixteenth_regroup: "(b::nat) div 16 * 64 + b mod 16 * 4 = b * 4"
proof -
  have "b div 16 * 64 + b mod 16 * 4 = (b div 16 * 16 + b mod 16) * 4"
    by (simp only: add_mult_distrib mult.assoc)
  also have "\<dots> = b * 4" by (simp only: div_mult_mod_eq)
  finally show ?thesis .
qed

lemma regroup_one_byte: "((a::nat) div 4 * 64 + a mod 4 * 16) div 16 = a"
  by (simp add: quarter_regroup)

lemma regroup_two_bytes: "((a::nat) div 4 * 64 + (a mod 4 * 16 + b div 16)) * 64 + b mod 16 * 4 = (a * 256 + b) * 4"
proof -
  have "(a div 4 * 64 + (a mod 4 * 16 + b div 16)) * 64 + b mod 16 * 4
      = (a div 4 * 64 + a mod 4 * 16) * 64 + (b div 16 * 64 + b mod 16 * 4)"
    by (simp add: add_mult_distrib)
  also have "\<dots> = (a * 256 + b) * 4"
    by (simp add: quarter_regroup sixteenth_regroup)
  finally show ?thesis .
qed

lemma regroup_three_bytes: "(((a::nat) div 4 * 64 + (a mod 4 * 16 + b div 16)) * 64 + (b mod 16 * 4 + c div 64)) * 64 + c mod 64
          = a * 65536 + b * 256 + c"
proof -
  have "((a div 4 * 64 + (a mod 4 * 16 + b div 16)) * 64 + (b mod 16 * 4 + c div 64)) * 64 + c mod 64
      = (a div 4 * 64 + a mod 4 * 16) * 4096 + (b div 16 * 64 + b mod 16 * 4) * 64 + (c div 64 * 64 + c mod 64)"
    by (simp add: add_mult_distrib)
  also have "\<dots> = a * 65536 + b * 256 + c"
    by (simp add: quarter_regroup sixteenth_regroup)
  finally show ?thesis .
qed

lemma high_byte: "b < 256 \<Longrightarrow> c < 256 \<Longrightarrow> ((a::nat) * 65536 + b * 256 + c) div 65536 = a"
  by simp

lemma middle_byte: "b < 256 \<Longrightarrow> c < 256 \<Longrightarrow> ((a::nat) * 65536 + b * 256 + c) div 256 mod 256 = b"
proof -
  assume "b < 256" "c < 256"
  then have "(a * 65536 + b * 256 + c) div 256 = a * 256 + b" by simp
  then show ?thesis using \<open>b < 256\<close> by simp
qed

lemma low_byte: "c < 256 \<Longrightarrow> ((a::nat) * 65536 + b * 256 + c) mod 256 = c"
proof -
  assume "c < 256"
  have "a * 65536 + b * 256 + c = (a * 256 + b) * 256 + c" by simp
  then have "(a * 65536 + b * 256 + c) mod 256 = ((a * 256 + b) * 256 + c) mod 256"
    by (simp only:)
  also have "\<dots> = c mod 256" by (rule mod_mult_self3)
  finally show ?thesis using \<open>c < 256\<close> by simp
qed

lemma sextets_length:
  "length (sextets xs) mod 4 = (if length xs mod 3 = 0 then 0 else length xs mod 3 + 1)"
proof (induction xs rule: sextets.induct)
  case (4 a b c rest)
  have "length rest mod 3 < 3" by simp
  then have "length rest mod 3 = 0 \<or> length rest mod 3 = 1 \<or> length rest mod 3 = 2" by linarith
  with 4 show ?case by (auto simp: mod_Suc)
qed simp_all

lemma decode_sextets_sextets: "\<forall>x\<in>set xs. x < 256 \<Longrightarrow> decode_sextets (sextets xs) = xs"
proof (induction xs rule: sextets.induct)
  case 1
  show ?case by simp
next
  case (2 a)
  show ?case by (simp add: regroup_one_byte)
next
  case (3 a b)
  then have b: "b < 256" by simp
  have "decode_sextets (sextets [a, b]) =
          [((a * 256 + b) * 4) div 4 div 256, ((a * 256 + b) * 4) div 4 mod 256]"
    by (simp only: sextets.simps decode_sextets.simps Let_def regroup_two_bytes)
  then show ?case using b by simp
next
  case (4 a b c rest)
  then have bc: "b < 256" "c < 256" and rest: "\<forall>x\<in>set rest. x < 256" by simp_all
  have "decode_sextets (sextets (a # b # c # rest)) =
          (a * 65536 + b * 256 + c) div 65536 # (a * 65536 + b * 256 + c) div 256 mod 256 #
          (a * 65536 + b * 256 + c) mod 256 # decode_sextets (sextets rest)"
    by (simp only: sextets.simps decode_sextets.simps Let_def regroup_three_bytes append.simps)
  then show ?case using "4.IH"[OF rest] by (simp only: low_byte middle_byte high_byte bc)
qed

lemma those_base64_values:
  "\<forall>v\<in>set vs. v < 64 \<Longrightarrow> those (map (base64_value \<circ> base64_char) vs) = Some vs"
  by (induction vs) (simp_all add: base64_value_char)

lemma filter_ws_chars:
  "\<forall>v\<in>set vs. v < 64 \<Longrightarrow> filter (\<lambda>c. \<not> ascii_whitespace c) (map base64_char vs) = map base64_char vs"
  by (induction vs) (simp_all add: base64_char_not_ws)

lemma last_base64_char:
  "vs \<noteq> [] \<Longrightarrow> \<forall>v\<in>set vs. v < 64 \<Longrightarrow> last (map base64_char vs) \<noteq> CHR ''=''"
  by (simp add: last_map base64_char_not_pad)

lemma strip_padding_encoded:
  assumes "\<forall>v\<in>set vs. v < 64"
  shows "length vs mod 4 = 0 \<Longrightarrow> strip_padding (map base64_char vs) = map base64_char vs"
    and "length vs mod 4 = 2 \<Longrightarrow> strip_padding (map base64_char vs @ ''=='') = map base64_char vs"
    and "length vs mod 4 = 3 \<Longrightarrow> strip_padding (map base64_char vs @ ''='') = map base64_char vs"
proof -
  have l: "vs \<noteq> [] \<Longrightarrow> last (map base64_char vs) \<noteq> CHR ''=''"
    using assms last_base64_char by blast
  show "length vs mod 4 = 0 \<Longrightarrow> strip_padding (map base64_char vs) = map base64_char vs"
    using l by (cases "vs = []") (simp_all add: strip_padding_def)
  show "length vs mod 4 = 2 \<Longrightarrow> strip_padding (map base64_char vs @ ''=='') = map base64_char vs"
    by (simp add: strip_padding_def butlast_append mod_Suc)
  show "length vs mod 4 = 3 \<Longrightarrow> strip_padding (map base64_char vs @ ''='') = map base64_char vs"
    using l by (cases "vs = []") (simp_all add: strip_padding_def butlast_append mod_Suc)
qed

lemma pad_not_ws: "\<not> ascii_whitespace (CHR ''='')"
  by (simp add: ascii_whitespace_def)

text \<open>Decoding inverts encoding: the decoder returns the bytes of every text that the
  encoder produces.\<close>

lemma decode_encode: "forgiving_base64_decode (base64_encode bs) = Some bs"
proof -
  define vs where "vs = sextets (map of_char bs)"
  have codes: "\<forall>x\<in>set (map of_char bs). x < (256::nat)" by simp
  have vs64: "\<forall>v\<in>set vs. v < 64" unfolding vs_def using codes by (rule sextets_bound)
  have len: "length vs mod 4 = (if length bs mod 3 = 0 then 0 else length bs mod 3 + 1)"
    unfolding vs_def using sextets_length[of "map of_char bs"] by simp
  have dec: "map char_of (decode_sextets vs) = bs"
    unfolding vs_def by (simp add: decode_sextets_sextets[OF codes] comp_def)
  have "length bs mod 3 < 3" by simp
  then consider "length bs mod 3 = 0" | "length bs mod 3 = 1" | "length bs mod 3 = 2" by linarith
  then show ?thesis
  proof cases
    case 1
    with len have l4: "length vs mod 4 = 0" by simp
    show ?thesis
      using 1 l4 by (simp add: forgiving_base64_decode_def base64_encode_def vs_def[symmetric]
          filter_ws_chars[OF vs64] strip_padding_encoded(1)[OF vs64] those_base64_values[OF vs64] dec)
  next
    case 2
    with len have l4: "length vs mod 4 = 2" by simp
    show ?thesis
      using 2 l4 by (simp add: forgiving_base64_decode_def base64_encode_def vs_def[symmetric]
          filter_ws_chars[OF vs64] strip_padding_encoded(2)[OF vs64] those_base64_values[OF vs64] dec
          pad_not_ws)
  next
    case 3
    with len have l4: "length vs mod 4 = 3" by simp
    show ?thesis
      using 3 l4 by (simp add: forgiving_base64_decode_def base64_encode_def vs_def[symmetric]
          filter_ws_chars[OF vs64] strip_padding_encoded(3)[OF vs64] those_base64_values[OF vs64] dec
          pad_not_ws)
  qed
qed

section \<open>Properties of generateImage\<close>

lemmas setters = setImage_def setLoading_def setError_def setDebugInfo_def

lemmas ex_defs = ex_text_part_def ex_image_part_def ex_jpeg_part_def ex_malformed_part_def
  ex_image_response_def ex_blocked_response_def ex_text_response_def ex_stringify_def
  ex_exn_def ex_state_def ex_later_state_def

text \<open>With both fields filled in and a key configured, the handler reaches the call.\<close>

lemma begin_ok:
  "word s \<noteq> [] \<Longrightarrow> style s \<noteq> [] \<Longrightarrow> API_KEY env \<noteq> [] \<Longrightarrow>
   generateImage_begin env s =
     Awaiting (s\<lparr>loading := True, error := None,
                 debugInfo := [''Sending prompt: '' @ imagePrompt (word s) (style s)]\<rparr>)
       (mk_request (API_KEY env) (imagePrompt (word s) (style s)))
       [''Sending prompt: '' @ imagePrompt (word s) (style s)]"
  by (simp add: generateImage_begin_def setters Let_def)

lemma generateImage_ok:
  "word s \<noteq> [] \<Longrightarrow> style s \<noteq> [] \<Longrightarrow> API_KEY env \<noteq> [] \<Longrightarrow>
   generateImage env stringify generateContent s =
     (generateImage_resume stringify s
        (s\<lparr>loading := True, error := None,
           debugInfo := [''Sending prompt: '' @ imagePrompt (word s) (style s)]\<rparr>)
        [''Sending prompt: '' @ imagePrompt (word s) (style s)]
        (generateContent (mk_request (API_KEY env) (imagePrompt (word s) (style s)))),
      [mk_request (API_KEY env) (imagePrompt (word s) (style s))])"
  by (simp add: generateImage_def begin_ok)

lemma safety_blockedI:
  "candidates r = Some (c # cs) \<Longrightarrow> safetyAttributes c = Some sa \<Longrightarrow>
   blockedCategories sa = Some bc \<Longrightarrow> ''IMAGE_SAFETY'' \<in> set bc \<Longrightarrow> safety_blocked r"
  by (simp add: safety_blocked_def)

lemma resume_blocked:
  "safety_blocked r \<Longrightarrow>
   generateImage_resume stringify s st logs (Returns r) =
     st\<lparr>loading := False,
        error := Some ''The image generation was blocked due to safety concerns. Please try a different prompt.'',
        debugInfo := logs @ [''Received response from Gemini API'', ''Processing response'',
                             ''Image was blocked due to safety concerns'']\<rparr>"
  by (simp add: generateImage_resume_def generateImage_try_def setters Let_def)

text \<open>
  Claim C1. When the first candidate of the response lists \<^verbatim>\<open>IMAGE_SAFETY\<close> among its
  blocked categories, the handler ends with the safety message as its error, which is
  neither of the two failure messages, and stores no image: the stored image is the
  one from before the request, whatever inline data the response carries. Nothing is
  assumed about the parts of the response, the safety check of line 63 coming before
  the search of line 71.
\<close>

theorem blocked_response_classified:
  assumes "word s \<noteq> []" "style s \<noteq> []" "API_KEY env \<noteq> []"
    and "generateContent (mk_request (API_KEY env) (imagePrompt (word s) (style s))) = Returns r"
    and "candidates r = Some (c # cs)" "safetyAttributes c = Some sa"
        "blockedCategories sa = Some bc" "''IMAGE_SAFETY'' \<in> set bc"
  shows "fst (generateImage env stringify generateContent s) =
           s\<lparr>loading := False,
             error := Some ''The image generation was blocked due to safety concerns. Please try a different prompt.'',
             debugInfo := [''Sending prompt: '' @ imagePrompt (word s) (style s),
                           ''Received response from Gemini API'', ''Processing response'',
                           ''Image was blocked due to safety concerns'']\<rparr>
         \<and> image_st (fst (generateImage env stringify generateContent s)) = image_st s
         \<and> error (fst (generateImage env stringify generateContent s)) \<noteq>
             Some ''Failed to generate an image. The API did not return image data.''
         \<and> (\<forall>err. error (fst (generateImage env stringify generateContent s)) \<noteq>
               Some (''Failed to generate image: '' @ message_or err ''Unknown error''))"
proof -
  have b: "safety_blocked r" using assms(5-8) by (rule safety_blockedI)
  show ?thesis
    by (simp add: generateImage_ok[OF assms(1-3)] assms(4) resume_blocked[OF b])
qed

text \<open>The witness is a blocked response that also carries an image part: the image is
  not stored.\<close>

theorem blocked_response_classified_witness:
  "word ex_state \<noteq> [] \<and> style ex_state \<noteq> [] \<and> API_KEY (Some ''key'') \<noteq> []
   \<and> find_imagePart ex_blocked_response = Some ex_image_part
   \<and> fst (generateImage (Some ''key'') ex_stringify (\<lambda>_. Returns ex_blocked_response) ex_state) =
       \<lparr>style = ''watercolor'', word = ''fox'', image_st = None, loading = False,
        error = Some ''The image generation was blocked due to safety concerns. Please try a different prompt.'',
        debugInfo = [''Sending prompt: '' @ imagePrompt ''fox'' ''watercolor'',
                     ''Received response from Gemini API'', ''Processing response'',
                     ''Image was blocked due to safety concerns'']\<rparr>"
  using blocked_response_classified [of ex_state "Some ''key''" "\<lambda>_. Returns ex_blocked_response"
      ex_blocked_response
      "\<lparr>content = Some \<lparr>role = Some ''model'', parts = Some [ex_text_part, ex_image_part]\<rparr>,
          safetyAttributes = Some \<lparr>blockedCategories = Some [''IMAGE_SAFETY'']\<rparr>\<rparr>" "[]"
      "\<lparr>blockedCategories = Some [''IMAGE_SAFETY'']\<rparr>" "[''IMAGE_SAFETY'']" ex_stringify]
  by (simp add: ex_defs API_KEY_def find_imagePart_def)


lemma find_first:
  "\<forall>q\<in>set pre. \<not> P q \<Longrightarrow> P p \<Longrightarrow> List.find P (pre @ p # post) = Some p"
  by (induction pre) simp_all

lemma find_imagePart_first:
  assumes "candidates r = Some (c # cs)" "content c = Some ct" "parts ct = Some (pre @ p # post)"
    and "\<forall>q\<in>set pre. inlineData q = None" "inlineData p = Some d"
  shows "find_imagePart r = Some p"
  using assms by (simp add: find_imagePart_def find_first)

lemma resume_image:
  "\<not> safety_blocked r \<Longrightarrow> find_imagePart r = Some p \<Longrightarrow> inlineData p = Some d \<Longrightarrow>
   generateImage_resume stringify s st logs (Returns r) =
     st\<lparr>image_st := Some p, loading := False,
        debugInfo := logs @ [''Received response from Gemini API'', ''Processing response'',
                             ''Successfully extracted image data'',
                             ''Image MIME type: '' @ mimeType d]\<rparr>"
  by (simp add: generateImage_resume_def generateImage_try_def setters Let_def)

text \<open>
  Claim C2. When the response is not safety-blocked and \<open>p\<close> is the first part of the
  first candidate that carries inline data (every part before it carries none), the
  handler ends with no error and with \<open>p\<close> itself stored as the image, so the stored
  MIME type and base64 text are those of the response, character for character. When
  that text is the base64 encoding of some bytes, decoding the stored text gives these
  bytes back.
\<close>

theorem image_response_stored_verbatim:
  assumes "word s \<noteq> []" "style s \<noteq> []" "API_KEY env \<noteq> []"
    and "generateContent (mk_request (API_KEY env) (imagePrompt (word s) (style s))) = Returns r"
    and "\<not> safety_blocked r"
    and "candidates r = Some (c # cs)" "content c = Some ct" "parts ct = Some (pre @ p # post)"
    and "\<forall>q\<in>set pre. inlineData q = None" "inlineData p = Some d"
  shows "fst (generateImage env stringify generateContent s) =
           s\<lparr>image_st := Some p, loading := False, error := None,
             debugInfo := [''Sending prompt: '' @ imagePrompt (word s) (style s),
                           ''Received response from Gemini API'', ''Processing response'',
                           ''Successfully extracted image data'',
                           ''Image MIME type: '' @ mimeType d]\<rparr>
         \<and> map_option inlineData (image_st (fst (generateImage env stringify generateContent s)))
             = Some (Some d)
         \<and> (\<forall>bs. data d = base64_encode bs \<longrightarrow> forgiving_base64_decode (data d) = Some bs)"
proof -
  have f: "find_imagePart r = Some p" using assms(6-10) by (rule find_imagePart_first)
  show ?thesis
    by (simp add: generateImage_ok[OF assms(1-3)] assms(4)
        resume_image[OF assms(5) f assms(10)] assms(10) decode_encode)
qed

text \<open>The witness starts from a state that holds an older image and an older error; the
  response has a text part, then a PNG part, then a JPEG part.\<close>

theorem image_response_stored_verbatim_witness:
  "word ex_later_state \<noteq> [] \<and> style ex_later_state \<noteq> [] \<and> API_KEY (Some ''key'') \<noteq> []
   \<and> \<not> safety_blocked ex_image_response
   \<and> base64_encode ''abc'' = ''YWJj''
   \<and> fst (generateImage (Some ''key'') ex_stringify (\<lambda>_. Returns ex_image_response) ex_later_state) =
       \<lparr>style = ''watercolor'', word = ''fox'',
        image_st = Some \<lparr>part_text = None,
                          inlineData = Some \<lparr>mimeType = ''image/png'', data = ''YWJj''\<rparr>\<rparr>,
        loading = False, error = None,
        debugInfo = [''Sending prompt: '' @ imagePrompt ''fox'' ''watercolor'',
                     ''Received response from Gemini API'', ''Processing response'',
                     ''Successfully extracted image data'', ''Image MIME type: image/png'']\<rparr>"
  using image_response_stored_verbatim [of ex_later_state "Some ''key''"
      "\<lambda>_. Returns ex_image_response" ex_image_response
      "\<lparr>content = Some \<lparr>role = Some ''model'',
                          parts = Some [ex_text_part, ex_image_part, ex_jpeg_part]\<rparr>,
        safetyAttributes = None\<rparr>" "[]"
      "\<lparr>role = Some ''model'', parts = Some [ex_text_part, ex_image_part, ex_jpeg_part]\<rparr>"
      "[ex_text_part]" ex_image_part "[ex_jpeg_part]"
      "\<lparr>mimeType = ''image/png'', data = ''YWJj''\<rparr>" ex_stringify]
  by (simp add: ex_defs API_KEY_def safety_blocked_def encode_examples)

lemma resume_no_image:
  "\<not> safety_blocked r \<Longrightarrow> find_imagePart r = None \<Longrightarrow>
   generateImage_resume stringify s st logs (Returns r) =
     st\<lparr>loading := False,
        error := Some ''Failed to generate an image. The API did not return image data.'',
        debugInfo := logs @ [''Received response from Gemini API'', ''Processing response'',
                             ''No image data found in the response'',
                             ''API Response: '' @ stringify r]\<rparr>"
  by (simp add: generateImage_resume_def generateImage_try_def setters Let_def)

text \<open>The search of line 71 finds nothing exactly when no part that it can reach
  carries inline data.\<close>

lemma find_imagePart_None_iff:
  "find_imagePart r = None \<longleftrightarrow>
     (\<forall>c cs ct ps. candidates r = Some (c # cs) \<and> content c = Some ct \<and> parts ct = Some ps
        \<longrightarrow> (\<forall>p\<in>set ps. inlineData p = None))"
  by (auto simp: find_imagePart_def find_None_iff split: option.splits list.splits)

text \<open>
  Claim C3, with the message the code sets. When the response is not safety-blocked
  and no part of its first candidate carries inline data, the handler ends with the
  error \<^verbatim>\<open>Failed to generate an image. The API did not return image data.\<close>, and the
  last entry of the trace is \<^verbatim>\<open>API Response: \<close> followed by the serialized response.
\<close>

theorem no_image_response_fails:
  assumes "word s \<noteq> []" "style s \<noteq> []" "API_KEY env \<noteq> []"
    and "generateContent (mk_request (API_KEY env) (imagePrompt (word s) (style s))) = Returns r"
    and "\<not> safety_blocked r"
    and "\<forall>c cs ct ps. candidates r = Some (c # cs) \<and> content c = Some ct \<and> parts ct = Some ps
        \<longrightarrow> (\<forall>p\<in>set ps. inlineData p = None)"
  shows "fst (generateImage env stringify generateContent s) =
           s\<lparr>loading := False,
             error := Some ''Failed to generate an image. The API did not return image data.'',
             debugInfo := [''Sending prompt: '' @ imagePrompt (word s) (style s),
                           ''Received response from Gemini API'', ''Processing response'',
                           ''No image data found in the response'',
                           ''API Response: '' @ stringify r]\<rparr>
         \<and> last (debugInfo (fst (generateImage env stringify generateContent s))) =
             ''API Response: '' @ stringify r"
proof -
  have f: "find_imagePart r = None" using assms(6) by (simp only: find_imagePart_None_iff)
  show ?thesis
    by (simp add: generateImage_ok[OF assms(1-3)] assms(4) resume_no_image[OF assms(5) f])
qed

theorem no_image_response_fails_witness:
  "word ex_state \<noteq> [] \<and> style ex_state \<noteq> [] \<and> API_KEY (Some ''key'') \<noteq> []
   \<and> \<not> safety_blocked ex_text_response
   \<and> fst (generateImage (Some ''key'') ex_stringify (\<lambda>_. Returns ex_text_response) ex_state) =
       \<lparr>style = ''watercolor'', word = ''fox'', image_st = None, loading = False,
        error = Some ''Failed to generate an image. The API did not return image data.'',
        debugInfo = [''Sending prompt: '' @ imagePrompt ''fox'' ''watercolor'',
                     ''Received response from Gemini API'', ''Processing response'',
                     ''No image data found in the response'',
                     ''API Response: '' @ ex_stringify ex_text_response]\<rparr>"
  using no_image_response_fails [of ex_state "Some ''key''" "\<lambda>_. Returns ex_text_response"
      ex_text_response ex_stringify]
  by (simp add: ex_defs API_KEY_def safety_blocked_def)

text \<open>For a response with a text part only, the error is not the text
  \<^verbatim>\<open>no image data returned\<close>.\<close>

theorem no_image_message_counterexample:
  "error (fst (generateImage (Some ''key'') ex_stringify (\<lambda>_. Returns ex_text_response) ex_state))
     \<noteq> Some ''no image data returned''"
  by (simp add: generateImage_def generateImage_begin_def generateImage_resume_def
      generateImage_try_def safety_blocked_def find_imagePart_def setters ex_defs API_KEY_def Let_def)

lemma resume_throws:
  "generateImage_resume stringify s st logs (Throws err) =
     st\<lparr>loading := False,
        error := Some (''Failed to generate image: '' @ message_or err ''Unknown error''),
        debugInfo := debugInfo s @ [''Error: '' @ message_or err ''Unknown error'']\<rparr>"
  by (simp add: generateImage_resume_def generateImage_try_def generateImage_catch_def setters)

text \<open>When the call throws, the error is built from the exception's message, and the
  trace is the one of the closure, from before the request, with the error line added.\<close>

lemma generateImage_throws:
  assumes "word s \<noteq> []" "style s \<noteq> []" "API_KEY env \<noteq> []"
    and "generateContent (mk_request (API_KEY env) (imagePrompt (word s) (style s))) = Throws err"
  shows "fst (generateImage env stringify generateContent s) =
           s\<lparr>loading := False,
             error := Some (''Failed to generate image: '' @ message_or err ''Unknown error''),
             debugInfo := debugInfo s @ [''Error: '' @ message_or err ''Unknown error'']\<rparr>"
  by (simp add: generateImage_ok[OF assms(1-3)] assms(4) resume_throws)

lemma message_or_simps:
  "message_or (Error None) d = d" "message_or (Error (Some [])) d = d"
  "m \<noteq> [] \<Longrightarrow> message_or (Error (Some m)) d = m"
  by (simp_all add: message_or_def str_or_def)

text \<open>
  Claim C4. The handler is run from a state whose trace holds \<^verbatim>\<open>an earlier line\<close>, and
  the call throws. The error message is built from the exception's message, or from
  \<^verbatim>\<open>Unknown error\<close> when there is none. The trace at the moment of the call is the
  fresh one, holding the \<^verbatim>\<open>Sending prompt\<close> line; the trace at the end is the earlier
  trace with the error line added, and the \<^verbatim>\<open>Sending prompt\<close> line is gone.
\<close>

theorem thrown_call_appends_to_earlier_trace:
  "fst (generateImage (Some ''key'') ex_stringify (\<lambda>_. Throws (Error (Some ''Network down'')))
          ex_later_state) =
     \<lparr>style = ''watercolor'', word = ''fox'', image_st = Some ex_jpeg_part, loading = False,
      error = Some ''Failed to generate image: Network down'',
      debugInfo = [''an earlier line'', ''Error: Network down'']\<rparr>
   \<and> fst (generateImage (Some ''key'') ex_stringify (\<lambda>_. Throws (Error None)) ex_later_state) =
     \<lparr>style = ''watercolor'', word = ''fox'', image_st = Some ex_jpeg_part, loading = False,
      error = Some ''Failed to generate image: Unknown error'',
      debugInfo = [''an earlier line'', ''Error: Unknown error'']\<rparr>
   \<and> susp_state (generateImage_begin (Some ''key'') ex_later_state) =
     \<lparr>style = ''watercolor'', word = ''fox'', image_st = Some ex_jpeg_part, loading = True,
      error = None,
      debugInfo = [''Sending prompt: '' @ imagePrompt ''fox'' ''watercolor'']\<rparr>"
  by (simp add: generateImage_def generateImage_begin_def resume_throws message_or_simps
      setters ex_later_state_def API_KEY_def Let_def)

text \<open>
  Claim C5, for fields that are empty; the code does not trim. With an empty word or
  an empty style the handler sets the message about the two fields; with both filled
  in and no key (the variable undefined or empty) it sets the message about the key. In
  both cases it returns before the call: no request is issued and nothing but the error
  changes.
\<close>

theorem invalid_input_fails_without_call:
  "(word s = [] \<or> style s = [] \<longrightarrow>
      generateImage env stringify generateContent s =
        (s\<lparr>error := Some ''Please enter both a word and style''\<rparr>, []))
   \<and> (word s \<noteq> [] \<and> style s \<noteq> [] \<and> (env = None \<or> env = Some []) \<longrightarrow>
      generateImage env stringify generateContent s =
        (s\<lparr>error := Some ''API key is missing. Please add your Gemini API key to the .env file.''\<rparr>, []))
   \<and> (word s = [] \<or> style s = [] \<or> env = None \<or> env = Some [] \<longrightarrow>
      snd (generateImage env stringify generateContent s) = [] \<and>
      generateImage_begin env s = Finished (fst (generateImage env stringify generateContent s)) \<and>
      error (fst (generateImage env stringify generateContent s)) \<noteq> None)"
  by (auto simp: generateImage_def generateImage_begin_def setters API_KEY_def)

theorem invalid_input_fails_without_call_witness:
  "generateImage (Some ''key'') ex_stringify (\<lambda>_. Returns ex_image_response) (ex_state\<lparr>word := []\<rparr>) =
     (\<lparr>style = ''watercolor'', word = [], image_st = None, loading = False,
       error = Some ''Please enter both a word and style'', debugInfo = []\<rparr>, [])
   \<and> generateImage None ex_stringify (\<lambda>_. Returns ex_image_response) ex_state =
     (\<lparr>style = ''watercolor'', word = ''fox'', image_st = None, loading = False,
       error = Some ''API key is missing. Please add your Gemini API key to the .env file.'',
       debugInfo = []\<rparr>, [])"
  using invalid_input_fails_without_call [of "ex_state\<lparr>word := []\<rparr>" "Some ''key''" ex_stringify
      "\<lambda>_. Returns ex_image_response"]
    invalid_input_fails_without_call [of ex_state None ex_stringify "\<lambda>_. Returns ex_image_response"]
  by (simp add: ex_state_def)

text \<open>A word of three spaces passes the check of line 17: the request is issued, with
  the spaces in the prompt, and no error is set.\<close>

theorem whitespace_word_counterexample:
  "snd (generateImage (Some ''key'') ex_stringify (\<lambda>_. Returns ex_image_response)
          (ex_state\<lparr>word := ''   ''\<rparr>)) =
     [mk_request ''key'' (imagePrompt ''   '' ''watercolor'')]
   \<and> error (fst (generateImage (Some ''key'') ex_stringify (\<lambda>_. Returns ex_image_response)
          (ex_state\<lparr>word := ''   ''\<rparr>))) = None"
  by (simp add: generateImage_def generateImage_begin_def generateImage_resume_def
      generateImage_try_def safety_blocked_def find_imagePart_def setters ex_defs API_KEY_def Let_def)

lemma imagePrompt_fox:
  \<open>imagePrompt ''fox'' ''watercolor'' =
     ''Create a high-quality, clear image of a "fox" in the style of watercolor. The object should be the central focus of the image, and visually styled according to the description: watercolor. Make it visually appealing and artistic.''\<close>
  by (simp add: imagePrompt_def)

text \<open>The number of places at which \<open>n\<close> occurs in a text is counted as the number of
  suffixes of the text that start with \<open>n\<close>; it is computed from left to right.\<close>

lemma occurrences_Cons:
  "length (filter (prefix n) (suffixes (x # xs))) =
     (if prefix n (x # xs) then 1 else 0) + length (filter (prefix n) (suffixes xs))"
  by simp

lemma occurrences_Nil:
  "length (filter (prefix (y # ys)) (suffixes [])) = 0"
  by simp

lemma occurrences_fox:
  "length (filter (prefix ''fox'') (suffixes (imagePrompt ''fox'' ''watercolor''))) = 1"
  unfolding imagePrompt_fox by (simp only: occurrences_Cons occurrences_Nil) simp

lemma occurrences_watercolor:
  "length (filter (prefix ''watercolor'') (suffixes (imagePrompt ''fox'' ''watercolor''))) = 2"
  unfolding imagePrompt_fox by (simp only: occurrences_Cons occurrences_Nil) simp

lemma ex_state_requests:
  "snd (generateImage (Some ''key'') ex_stringify (\<lambda>_. Returns ex_image_response) ex_state) =
     [mk_request ''key'' (imagePrompt ''fox'' ''watercolor'')]"
  by (simp add: generateImage_def generateImage_begin_def ex_state_def API_KEY_def Let_def)

text \<open>
  Claim C6, with the quotation marks the code writes. For a non-empty word and style
  (and a key), exactly one request is issued, and its text is the template of line 40
  with the word between double quotes and the style in two places. For the word
  \<^verbatim>\<open>fox\<close> and the style \<^verbatim>\<open>watercolor\<close>, \<^verbatim>\<open>fox\<close> occurs once in the prompt and
  \<^verbatim>\<open>watercolor\<close> twice, once for each place of the style.
\<close>

theorem prompt_follows_template:
  \<open>(word s \<noteq> [] \<and> style s \<noteq> [] \<and> API_KEY env \<noteq> [] \<longrightarrow>
     map req_parts (snd (generateImage env stringify generateContent s)) =
       [[''Create a high-quality, clear image of a "'' @ word s @ ''" in the style of '' @ style s @
         ''. The object should be the central focus of the image, and visually styled according to the description: ''
         @ style s @ ''. Make it visually appealing and artistic.'']])
   \<and> length (filter (prefix ''fox'') (suffixes (imagePrompt ''fox'' ''watercolor''))) = 1
   \<and> length (filter (prefix ''watercolor'') (suffixes (imagePrompt ''fox'' ''watercolor''))) = 2\<close>
proof -
  have "map req_parts (snd (generateImage env stringify generateContent s)) =
          [[imagePrompt (word s) (style s)]]"
    if "word s \<noteq> []" "style s \<noteq> []" "API_KEY env \<noteq> []"
    by (simp add: generateImage_ok[OF that] mk_request_def)
  then show ?thesis
    by (simp add: occurrences_fox occurrences_watercolor) (simp add: imagePrompt_def)
qed

theorem prompt_follows_template_witness:
  \<open>map req_parts (snd (generateImage (Some ''key'') ex_stringify (\<lambda>_. Returns ex_image_response) ex_state)) =
     [[''Create a high-quality, clear image of a "fox" in the style of watercolor. The object should be the central focus of the image, and visually styled according to the description: watercolor. Make it visually appealing and artistic.'']]\<close>
  using prompt_follows_template [of ex_state "Some ''key''" ex_stringify "\<lambda>_. Returns ex_image_response"]
  by (simp add: ex_state_def API_KEY_def)

text \<open>The prompt sent for \<^verbatim>\<open>fox\<close> and \<^verbatim>\<open>watercolor\<close> is not the template with the word
  between single quotes, and \<^verbatim>\<open>watercolor\<close> occurs in it twice.\<close>

theorem prompt_single_quotes_counterexample:
  \<open>map req_parts (snd (generateImage (Some ''key'') ex_stringify (\<lambda>_. Returns ex_image_response) ex_state)) \<noteq>
     [[''Create a high-quality, clear image of a 'fox' in the style of watercolor. The object should be the central focus of the image, and visually styled according to the description: watercolor. Make it visually appealing and artistic.'']]
   \<and> length (filter (prefix ''watercolor'') (suffixes (hd (req_parts (hd (snd
        (generateImage (Some ''key'') ex_stringify (\<lambda>_. Returns ex_image_response) ex_state))))))) = 2\<close>
  by (simp add: ex_state_requests mk_request_def occurrences_watercolor) (simp add: imagePrompt_def)

text \<open>
  Claim C9, for what the code resets. When the handler passes the checks, the state
  at the moment of the call has no error and a trace that holds only the
  \<^verbatim>\<open>Sending prompt\<close> line of this request; the stored image is the one from before.
\<close>

theorem request_start_resets_error_and_trace:
  assumes "word s \<noteq> []" "style s \<noteq> []" "API_KEY env \<noteq> []"
  shows "generateImage_begin env s =
           Awaiting (s\<lparr>loading := True, error := None,
                       debugInfo := [''Sending prompt: '' @ imagePrompt (word s) (style s)]\<rparr>)
             (mk_request (API_KEY env) (imagePrompt (word s) (style s)))
             [''Sending prompt: '' @ imagePrompt (word s) (style s)]
         \<and> error (susp_state (generateImage_begin env s)) = None
         \<and> debugInfo (susp_state (generateImage_begin env s)) =
             [''Sending prompt: '' @ imagePrompt (word s) (style s)]
         \<and> image_st (susp_state (generateImage_begin env s)) = image_st s"
  by (simp add: begin_ok[OF assms])

theorem request_start_resets_error_and_trace_witness:
  "word ex_later_state \<noteq> [] \<and> style ex_later_state \<noteq> [] \<and> API_KEY (Some ''key'') \<noteq> []
   \<and> susp_state (generateImage_begin (Some ''key'') ex_later_state) =
     \<lparr>style = ''watercolor'', word = ''fox'', image_st = Some ex_jpeg_part, loading = True,
      error = None, debugInfo = [''Sending prompt: '' @ imagePrompt ''fox'' ''watercolor'']\<rparr>"
  using request_start_resets_error_and_trace [of ex_later_state "Some ''key''"]
  by (simp add: ex_later_state_def API_KEY_def)

text \<open>From a state that holds an image, the image is still stored when the call is
  issued, and still stored after a response without image data.\<close>

theorem image_not_reset_counterexample:
  "image_st ex_later_state = Some ex_jpeg_part
   \<and> susp_request (generateImage_begin (Some ''key'') ex_later_state) =
       mk_request ''key'' (imagePrompt ''fox'' ''watercolor'')
   \<and> image_st (susp_state (generateImage_begin (Some ''key'') ex_later_state)) = Some ex_jpeg_part
   \<and> image_st (fst (generateImage (Some ''key'') ex_stringify (\<lambda>_. Returns ex_text_response) ex_later_state))
       = Some ex_jpeg_part"
  by (simp add: generateImage_def generateImage_begin_def generateImage_resume_def
      generateImage_try_def safety_blocked_def find_imagePart_def setters ex_defs API_KEY_def Let_def)

section \<open>Properties of saveImage\<close>

subsection \<open>The copying loop\<close>

declare byteNumbers_loop.simps [simp del]

text \<open>The loop fills the array from left to right: after it has reached index \<open>i\<close>, the
  first \<open>i\<close> entries are as they were and the rest are the character codes.\<close>

lemma byteNumbers_loop_inv:
  "i \<le> length bc \<Longrightarrow> length bn = length bc \<Longrightarrow>
   byteNumbers_loop bc i bn = take i bn @ map (\<lambda>c. Some (of_char c)) (drop i bc)"
proof (induction bc i bn rule: byteNumbers_loop.induct)
  case (1 bc i bn)
  show ?case
  proof (cases "i < length bc")
    case True
    then have "byteNumbers_loop bc i bn =
        byteNumbers_loop bc (Suc i) (bn[i := Some (of_char (bc ! i))])"
      by (subst byteNumbers_loop.simps) simp
    also have "\<dots> = take (Suc i) (bn[i := Some (of_char (bc ! i))]) @
        map (\<lambda>c. Some (of_char c)) (drop (Suc i) bc)"
      using True "1.prems" by (intro "1.IH") simp_all
    finally have step: "byteNumbers_loop bc i bn =
        take (Suc i) (bn[i := Some (of_char (bc ! i))]) @
        map (\<lambda>c. Some (of_char c)) (drop (Suc i) bc)" .
    have hd_eq: "take (Suc i) (bn[i := Some (of_char (bc ! i))]) = take i bn @ [Some (of_char (bc ! i))]"
      using True "1.prems" by (simp add: take_Suc_conv_app_nth)
    have tl_eq: "drop i bc = bc ! i # drop (Suc i) bc"
      using True by (simp add: Cons_nth_drop_Suc)
    show ?thesis by (simp add: step hd_eq tl_eq)
  next
    case False
    with "1.prems" have "i = length bc" by simp
    then show ?thesis using "1.prems" by (subst byteNumbers_loop.simps) simp
  qed
qed

lemma byteArray_eq:
  "Uint8Array (byteNumbers_loop bc 0 (replicate (length bc) None)) = map of_char bc"
  by (simp add: byteNumbers_loop_inv Uint8Array_def)

subsection \<open>The handler\<close>

lemmas decode_defs = forgiving_base64_decode_def ascii_whitespace_def strip_padding_def
  base64_value_def char_of_eq_iff

lemma decode_abc: "forgiving_base64_decode ''YWJj'' = Some ''abc''"
  by (simp add: decode_defs)

lemma decode_malformed: "forgiving_base64_decode ''YW@j'' = None"
  by (simp add: decode_defs)

text \<open>The decoder on padded text, on text with whitespace, on unpadded text, and on
  text it rejects.\<close>

lemma decode_examples:
  "forgiving_base64_decode ''YQ=='' = Some ''a''"
  "forgiving_base64_decode ''YWI='' = Some ''ab''"
  "forgiving_base64_decode '' YW Jj'' = Some ''abc''"
  "forgiving_base64_decode ''YQ'' = Some ''a''"
  "forgiving_base64_decode ''YQ='' = None"
  "forgiving_base64_decode ''Y'' = None"
  by (simp_all add: decode_defs)

lemma split_str_no_sep: "c \<notin> set t \<Longrightarrow> split_str c t = [t]"
  by (induction t) auto

lemma split_str_sep: "c \<notin> set t \<Longrightarrow> split_str c (t @ c # rest) = t # split_str c rest"
  by (induction t) auto

lemma split_str_hd: "\<exists>ys. split_str c xs = takeWhile (\<lambda>x. x \<noteq> c) xs # ys"
  by (induction xs) auto

lemma extension_of_no_slash: "CHR ''/'' \<notin> set m \<Longrightarrow> extension_of m = ''png''"
  by (simp add: extension_of_def split_str_no_sep js_index_def str_or_def)

text \<open>With a slash, the extension is what stands between the first slash and the next
  one (or the end), unless that is empty.\<close>

lemma extension_of_slash:
  assumes "CHR ''/'' \<notin> set t"
  shows "extension_of (t @ CHR ''/'' # sub) =
           (if takeWhile (\<lambda>x. x \<noteq> CHR ''/'') sub = [] then ''png''
            else takeWhile (\<lambda>x. x \<noteq> CHR ''/'') sub)"
proof -
  obtain ys where "split_str (CHR ''/'') sub = takeWhile (\<lambda>x. x \<noteq> CHR ''/'') sub # ys"
    using split_str_hd by blast
  then show ?thesis
    using assms by (simp add: extension_of_def split_str_sep js_index_def str_or_def)
qed

lemma extension_of_subtype:
  "CHR ''/'' \<notin> set t \<Longrightarrow> CHR ''/'' \<notin> set sub \<Longrightarrow> sub \<noteq> [] \<Longrightarrow>
   extension_of (t @ CHR ''/'' # sub) = sub"
proof -
  assume a: "CHR ''/'' \<notin> set t" "CHR ''/'' \<notin> set sub" "sub \<noteq> []"
  have tw: "takeWhile (\<lambda>x. x \<noteq> CHR ''/'') sub = sub"
    using a(2) by auto
  show ?thesis
    unfolding extension_of_slash[OF a(1)] tw using a(3) by simp
qed

lemma saveImage_try_ok:
  "inlineData im = Some d \<Longrightarrow> forgiving_base64_decode (data d) = Some bytes \<Longrightarrow>
   saveImage_try exn s im =
     Inr (s, [\<lparr>save_blob = \<lparr>blob_bytes = map of_char bytes, blob_type = mimeType d\<rparr>,
               save_name = word s @ ''.'' @ extension_of (mimeType d)\<rparr>])"
  by (simp add: saveImage_try_def atob_def byteArray_eq Let_def)

text \<open>
  Claim C7, for a word that is not empty. When an image is stored whose base64 text
  decodes to \<open>bytes\<close>, the handler makes exactly one save request, leaves the state as it
  is, and the request carries the codes of \<open>bytes\<close>, the MIME type, and the name made of
  the word, a dot and the extension. The extension of \<^verbatim>\<open>type/subtype\<close> is the subtype;
  it is \<^verbatim>\<open>png\<close> when there is no slash or nothing after it. When the text is the
  base64 encoding of some bytes, \<open>bytes\<close> are these.
\<close>

theorem save_request_for_stored_image:
  assumes "word s \<noteq> []" "image_st s = Some im" "inlineData im = Some d"
    and "forgiving_base64_decode (data d) = Some bytes"
  shows "saveImage exn s =
           Inr (s, [\<lparr>save_blob = \<lparr>blob_bytes = map of_char bytes, blob_type = mimeType d\<rparr>,
                     save_name = word s @ ''.'' @ extension_of (mimeType d)\<rparr>])
         \<and> (\<forall>t sub. mimeType d = t @ ''/'' @ sub \<and> CHR ''/'' \<notin> set t \<and> CHR ''/'' \<notin> set sub
               \<and> sub \<noteq> [] \<longrightarrow> extension_of (mimeType d) = sub)
         \<and> (CHR ''/'' \<notin> set (mimeType d) \<or> (\<exists>t. mimeType d = t @ ''/'' \<and> CHR ''/'' \<notin> set t)
               \<longrightarrow> extension_of (mimeType d) = ''png'')
         \<and> (\<forall>bs. data d = base64_encode bs \<longrightarrow> bytes = bs)"
proof (intro conjI)
  show "\<forall>bs. data d = base64_encode bs \<longrightarrow> bytes = bs"
    using assms(4) by (auto simp: decode_encode)
  show "saveImage exn s =
           Inr (s, [\<lparr>save_blob = \<lparr>blob_bytes = map of_char bytes, blob_type = mimeType d\<rparr>,
                     save_name = word s @ ''.'' @ extension_of (mimeType d)\<rparr>])"
    using assms(1,2) by (simp add: saveImage_def saveImage_try_ok[OF assms(3,4)])
  show "\<forall>t sub. mimeType d = t @ ''/'' @ sub \<and> CHR ''/'' \<notin> set t \<and> CHR ''/'' \<notin> set sub
               \<and> sub \<noteq> [] \<longrightarrow> extension_of (mimeType d) = sub"
    using extension_of_subtype by auto
  show "CHR ''/'' \<notin> set (mimeType d) \<or> (\<exists>t. mimeType d = t @ ''/'' \<and> CHR ''/'' \<notin> set t)
               \<longrightarrow> extension_of (mimeType d) = ''png''"
    using extension_of_no_slash extension_of_slash[where sub = "[]"] by auto
qed

text \<open>The witness is the JPEG payload with the text \<^verbatim>\<open>YWJj\<close>, the base64 encoding of
  \<^verbatim>\<open>abc\<close>, and the word \<^verbatim>\<open>cat\<close>: one save named \<^verbatim>\<open>cat.jpeg\<close>, whose bytes are those
  of \<^verbatim>\<open>abc\<close>.\<close>

theorem save_request_for_stored_image_witness:
  "base64_encode ''abc'' = ''YWJj''
   \<and> image_st (ex_later_state\<lparr>word := ''cat''\<rparr>) =
       Some \<lparr>part_text = None, inlineData = Some \<lparr>mimeType = ''image/jpeg'', data = ''YWJj''\<rparr>\<rparr>
   \<and> saveImage ex_exn (ex_later_state\<lparr>word := ''cat''\<rparr>) =
     Inr (ex_later_state\<lparr>word := ''cat''\<rparr>,
          [\<lparr>save_blob = \<lparr>blob_bytes = map of_char ''abc'', blob_type = ''image/jpeg''\<rparr>,
            save_name = ''cat.jpeg''\<rparr>])"
  using save_request_for_stored_image [of "ex_later_state\<lparr>word := ''cat''\<rparr>" ex_jpeg_part
      "\<lparr>mimeType = ''image/jpeg'', data = ''YWJj''\<rparr>" "''abc''" ex_exn]
  by (simp add: ex_later_state_def ex_jpeg_part_def decode_abc extension_of_def js_index_def
      str_or_def encode_examples)

text \<open>With the same payload and an empty word, no save request is made.\<close>

theorem empty_name_counterexample:
  "image_st (ex_later_state\<lparr>word := []\<rparr>) = Some ex_jpeg_part
   \<and> forgiving_base64_decode ''YWJj'' = Some ''abc''
   \<and> saveImage ex_exn (ex_later_state\<lparr>word := []\<rparr>) = Inr (ex_later_state\<lparr>word := []\<rparr>, [])"
  by (simp add: saveImage_def ex_later_state_def decode_abc)

text \<open>
  Claim C8. The handler returns normally on every state and for every exception
  object the decoder may throw. Without a stored image it changes nothing and makes no
  save request. With a stored image whose base64 text does not decode (and a
  non-empty word), it makes no save request and sets the error to
  \<^verbatim>\<open>Failed to save image: \<close> followed by the exception's message.
\<close>

theorem saveImage_never_throws:
  "(\<exists>r. saveImage exn s = Inr r)
   \<and> (image_st s = None \<longrightarrow> saveImage exn s = Inr (s, []))
   \<and> (\<forall>im d. image_st s = Some im \<and> word s \<noteq> [] \<and> inlineData im = Some d
         \<and> forgiving_base64_decode (data d) = None \<longrightarrow>
         saveImage exn s =
           Inr (s\<lparr>error := Some (''Failed to save image: '' @ message_or exn ''Unknown error'')\<rparr>, []))"
  by (auto simp: saveImage_def saveImage_try_def atob_def setError_def Let_def
      split: option.splits sum.splits)

theorem saveImage_never_throws_witness:
  "saveImage ex_exn ex_state = Inr (ex_state, [])
   \<and> saveImage ex_exn (ex_state\<lparr>image_st := Some ex_malformed_part\<rparr>) =
       Inr (ex_state\<lparr>image_st := Some ex_malformed_part,
              error := Some ''Failed to save image: The string to be decoded is not correctly encoded.''\<rparr>, [])"
  using saveImage_never_throws [of ex_exn ex_state]
    saveImage_never_throws [of ex_exn "ex_state\<lparr>image_st := Some ex_malformed_part\<rparr>"]
  by (simp add: ex_state_def ex_malformed_part_def ex_exn_def decode_malformed message_or_def
      str_or_def)

text \<open>
  Claim C10. With an empty word the handler returns at once, whatever image is
  stored: the state is unchanged, so no error is set, no save request is made, and the
  return is a normal one.
\<close>

theorem empty_word_save_is_noop:
  "word s = [] \<Longrightarrow> saveImage exn s = Inr (s, [])"
  by (simp add: saveImage_def split: option.splits)

theorem empty_word_save_is_noop_witness:
  "word (ex_later_state\<lparr>word := []\<rparr>) = []
   \<and> image_st (ex_later_state\<lparr>word := []\<rparr>) = Some ex_jpeg_part
   \<and> saveImage ex_exn (ex_later_state\<lparr>word := []\<rparr>) = Inr (ex_later_state\<lparr>word := []\<rparr>, [])"
  using empty_word_save_is_noop [of "ex_later_state\<lparr>word := []\<rparr>" ex_exn]
  by (simp add: ex_later_state_def)

end
